theory Spec2Isabelle
  imports Complex_Main
begin

section \<open>JavaScript values and the crypto library\<close>

text \<open>
  JavaScript strings are modelled as \<^typ>\<open>string\<close>, a character outside ASCII being the
  bytes of its UTF-8 encoding; the falsy string is the empty one.
  A value that may be \<open>null\<close> or \<open>undefined\<close> is an \<^typ>\<open>'a option\<close>, with \<open>None\<close>
  for the missing value. A thrown exception is a value of \<open>js_error\<close>, and a call that
  may throw returns \<open>js_error + 'a\<close>.
\<close>

datatype js_error = Error string

datatype jsval = JNull | JBool bool | JNum int | JStr string

type_synonym salt = string

text \<open>
  The functions of \<open>crypto-js\<close> that the extension calls. The library is not part of the
  repository, so it is a parameter of every function that uses it:
  \<^item> \<open>AES_encrypt salt data password\<close> is \<open>CryptoJS.AES.encrypt(data, password).toString()\<close>;
    the library draws a random salt at every call, which is the first argument here;
  \<^item> \<open>AES_decrypt c password\<close> is
    \<open>CryptoJS.AES.decrypt(c, password).toString(CryptoJS.enc.Utf8)\<close>, which throws on bytes
    that are not UTF-8;
  \<^item> \<open>SHA256 s\<close> is \<open>CryptoJS.SHA256(s).toString()\<close>.
\<close>

record cryptojs =
  AES_encrypt :: "salt \<Rightarrow> string \<Rightarrow> string \<Rightarrow> js_error + string"
  AES_decrypt :: "string \<Rightarrow> string \<Rightarrow> js_error + string"
  SHA256 :: "string \<Rightarrow> string"

text \<open>
  What the library promises about AES: a non-empty text encrypted under a non-empty
  password gives a non-empty ciphertext, which decrypts under the same password to the
  text.
\<close>

definition aes_roundtrip :: "cryptojs \<Rightarrow> bool" where
  "aes_roundtrip lib \<longleftrightarrow>
     (\<forall>s d p. d \<noteq> [] \<and> p \<noteq> [] \<longrightarrow>
        (\<exists>c. AES_encrypt lib s d p = Inr c \<and> c \<noteq> [] \<and> AES_decrypt lib c p = Inr d))"

section \<open>JavaScript string functions\<close>

text \<open>
  The characters that \<open>String.prototype.trim\<close> removes and that \<open>\s\<close> matches, among the
  ASCII characters: space, tab, line feed, vertical tab, form feed and carriage return.
\<close>

definition whitespace :: "char \<Rightarrow> bool" where
  "whitespace c \<longleftrightarrow> c \<in> set [CHR '' '', CHR 0x09, CHR 0x0A, CHR 0x0B, CHR 0x0C, CHR 0x0D]"

definition trim :: "string \<Rightarrow> string" where
  "trim s = rev (dropWhile whitespace (rev (dropWhile whitespace s)))"

text \<open>\<open>toLowerCase\<close> and \<open>toUpperCase\<close> on the ASCII letters; other characters are kept.\<close>

definition toLowerCase :: "string \<Rightarrow> string" where
  "toLowerCase s =
     map (\<lambda>c. case map_of (zip ''ABCDEFGHIJKLMNOPQRSTUVWXYZ'' ''abcdefghijklmnopqrstuvwxyz'') c of
                 Some l \<Rightarrow> l
               | None \<Rightarrow> c) s"

definition toUpperCase :: "string \<Rightarrow> string" where
  "toUpperCase s =
     map (\<lambda>c. case map_of (zip ''abcdefghijklmnopqrstuvwxyz'' ''ABCDEFGHIJKLMNOPQRSTUVWXYZ'') c of
                 Some u \<Rightarrow> u
               | None \<Rightarrow> c) s"

text \<open>\<open>Number.prototype.toString\<close> on a non-negative integer: its decimal digits.\<close>

definition digit_char :: "nat \<Rightarrow> char" where
  "digit_char d = ''0123456789'' ! d"

function toString :: "nat \<Rightarrow> string" where
  "toString n =
     (if n < 10 then [digit_char n] else toString (n div 10) @ [digit_char (n mod 10)])"
  by pat_completeness auto
termination
  by (relation "measure (\<lambda>n. n)") auto

declare toString.simps [simp del]

section \<open>Crypto primitive layer (src/utils/encryption.js)\<close>

text \<open>
  \<^verbatim>\<open>export function encrypt(data, password) {
    if (!data || !password) { return null; }
    try { return CryptoJS.AES.encrypt(data, password).toString(); }
    catch (error) { return null; } }\<close>
\<close>

definition encrypt :: "cryptojs \<Rightarrow> salt \<Rightarrow> string \<Rightarrow> string \<Rightarrow> string option" where
  "encrypt lib s data password =
     (if data = [] \<or> password = [] then None
      else (case AES_encrypt lib s data password of
              Inl error \<Rightarrow> None
            | Inr c \<Rightarrow> Some c))"

text \<open>
  \<^verbatim>\<open>export function decrypt(encryptedData, password) {
    if (!encryptedData || !password) { return null; }
    try {
        const bytes = CryptoJS.AES.decrypt(encryptedData, password);
        const decrypted = bytes.toString(CryptoJS.enc.Utf8);
        return decrypted || null;
    } catch (error) { return null; } }\<close>
  The first argument may be the \<open>null\<close> that \<open>encrypt\<close> returned.
\<close>

definition decrypt :: "cryptojs \<Rightarrow> string option \<Rightarrow> string \<Rightarrow> string option" where
  "decrypt lib encryptedData password =
     (case encryptedData of
        None \<Rightarrow> None
      | Some c \<Rightarrow>
          if c = [] \<or> password = [] then None
          else (case AES_decrypt lib c password of
                  Inl error \<Rightarrow> None
                | Inr decrypted \<Rightarrow> if decrypted = [] then None else Some decrypted))"

section \<open>Credential store (src/utils/encryption.js)\<close>

text \<open>
  Settings and CEX accounts are JavaScript objects that may carry the property
  \<open>isEncrypted\<close>; \<open>None\<close> is the absent property (\<open>delete obj.isEncrypted\<close>).
\<close>

record encryptable =
  isEncrypted :: "bool option"

text \<open>\<open>obj.isEncrypted\<close> as a condition, and \<open>obj.isEncrypted === true\<close>.\<close>

definition flagged :: "'a encryptable_scheme \<Rightarrow> bool" where
  "flagged obj \<longleftrightarrow> isEncrypted obj = Some True"

text \<open>
  The settings object. The properties that the modelled functions read or write are
  fields; an API key is absent (\<open>None\<close>), \<open>null\<close> (\<open>Some None\<close>, what a failed \<open>encrypt\<close>
  stores) or a string. Every other property of the bag is kept in \<open>other\<close>.
\<close>

record settings = encryptable +
  encryptionVersion :: "string option"
  openRouterApiKey :: "string option option"
  siliconFlowApiKey :: "string option option"
  customSolanaRpc :: "string option"
  timestamp :: "nat option"
  syncWallets :: "bool option"
  syncCexApi :: "bool option"
  other :: "string \<rightharpoonup> jsval"

text \<open>A property holding a non-empty string (a truthy API key).\<close>

fun truthy_key :: "string option option \<Rightarrow> string option" where
  "truthy_key (Some (Some k)) = (if k = [] then None else Some k)"
| "truthy_key _ = None"

text \<open>
  \<^verbatim>\<open>export function encryptSettings(settings, password) {
    if (!settings || !password) { return settings; }
    const encrypted = { ...settings };
    if (settings.openRouterApiKey) {
        encrypted.openRouterApiKey = encrypt(settings.openRouterApiKey, password); }
    if (settings.siliconFlowApiKey) {
        encrypted.siliconFlowApiKey = encrypt(settings.siliconFlowApiKey, password); }
    encrypted.isEncrypted = true;
    encrypted.encryptionVersion = '1.0';
    return encrypted; }\<close>
  The two salts are those of the two calls of \<open>encrypt\<close>.
\<close>

definition encryptSettings :: "cryptojs \<Rightarrow> salt \<times> salt \<Rightarrow> settings \<Rightarrow> string \<Rightarrow> settings" where
  "encryptSettings lib ss st password =
     (if password = [] then st
      else
        let encrypted = st;
            encrypted = (case truthy_key (openRouterApiKey st) of
                           Some k \<Rightarrow> encrypted\<lparr>openRouterApiKey := Some (encrypt lib (fst ss) k password)\<rparr>
                         | None \<Rightarrow> encrypted);
            encrypted = (case truthy_key (siliconFlowApiKey st) of
                           Some k \<Rightarrow> encrypted\<lparr>siliconFlowApiKey := Some (encrypt lib (snd ss) k password)\<rparr>
                         | None \<Rightarrow> encrypted)
        in encrypted\<lparr>isEncrypted := Some True, encryptionVersion := Some ''1.0''\<rparr>)"

text \<open>
  \<^verbatim>\<open>export function decryptSettings(settings, password) {
    if (!settings || !password) { return settings; }
    if (!settings.isEncrypted) { return settings; }
    const decrypted = { ...settings };
    if (settings.openRouterApiKey) {
        const decryptedKey = decrypt(settings.openRouterApiKey, password);
        if (decryptedKey) { decrypted.openRouterApiKey = decryptedKey; } }
    if (settings.siliconFlowApiKey) {
        const decryptedKey = decrypt(settings.siliconFlowApiKey, password);
        if (decryptedKey) { decrypted.siliconFlowApiKey = decryptedKey; } }
    delete decrypted.isEncrypted;
    delete decrypted.encryptionVersion;
    return decrypted; }\<close>
\<close>

definition decryptSettings :: "cryptojs \<Rightarrow> settings \<Rightarrow> string \<Rightarrow> settings" where
  "decryptSettings lib st password =
     (if password = [] then st
      else if \<not> flagged st then st
      else
        let decrypted = st;
            decrypted = (case truthy_key (openRouterApiKey st) of
                           Some k \<Rightarrow> (case decrypt lib (Some k) password of
                                        Some decryptedKey \<Rightarrow>
                                          if decryptedKey = [] then decrypted
                                          else decrypted\<lparr>openRouterApiKey := Some (Some decryptedKey)\<rparr>
                                      | None \<Rightarrow> decrypted)
                         | None \<Rightarrow> decrypted);
            decrypted = (case truthy_key (siliconFlowApiKey st) of
                           Some k \<Rightarrow> (case decrypt lib (Some k) password of
                                        Some decryptedKey \<Rightarrow>
                                          if decryptedKey = [] then decrypted
                                          else decrypted\<lparr>siliconFlowApiKey := Some (Some decryptedKey)\<rparr>
                                      | None \<Rightarrow> decrypted)
                         | None \<Rightarrow> decrypted)
        in decrypted\<lparr>isEncrypted := None, encryptionVersion := None\<rparr>)"

text \<open>
  A CEX account. \<open>apiSecret\<close> and \<open>passphrase\<close> are strings, or the \<open>null\<close> that a failed
  \<open>encrypt\<close> stores (\<open>None\<close>). The property \<open>id\<close> is the field \<open>cex_id\<close>.
\<close>

record cex_account = encryptable +
  cex_id :: string
  cexName :: string
  apiKey :: string
  apiSecret :: "string option"
  passphrase :: "string option"
  remark :: string

text \<open>A property holding a non-empty string.\<close>

fun truthy_str :: "string option \<Rightarrow> string option" where
  "truthy_str (Some k) = (if k = [] then None else Some k)"
| "truthy_str None = None"

text \<open>
  \<^verbatim>\<open>export function encryptCexAccount(cexAccount, password) {
    if (!cexAccount || !password) { return cexAccount; }
    const encrypted = { ...cexAccount };
    if (cexAccount.apiSecret) {
        encrypted.apiSecret = encrypt(cexAccount.apiSecret, password); }
    if (cexAccount.passphrase) {
        encrypted.passphrase = encrypt(cexAccount.passphrase, password); }
    encrypted.isEncrypted = true;
    return encrypted; }\<close>
\<close>

definition encryptCexAccount :: "cryptojs \<Rightarrow> salt \<times> salt \<Rightarrow> cex_account \<Rightarrow> string \<Rightarrow> cex_account" where
  "encryptCexAccount lib ss cexAccount password =
     (if password = [] then cexAccount
      else
        let encrypted = cexAccount;
            encrypted = (case truthy_str (apiSecret cexAccount) of
                           Some k \<Rightarrow> encrypted\<lparr>apiSecret := encrypt lib (fst ss) k password\<rparr>
                         | None \<Rightarrow> encrypted);
            encrypted = (case truthy_str (passphrase cexAccount) of
                           Some k \<Rightarrow> encrypted\<lparr>passphrase := encrypt lib (snd ss) k password\<rparr>
                         | None \<Rightarrow> encrypted)
        in encrypted\<lparr>isEncrypted := Some True\<rparr>)"

text \<open>
  \<^verbatim>\<open>export function decryptCexAccount(cexAccount, password) {
    if (!cexAccount || !password || !cexAccount.isEncrypted) { return cexAccount; }
    const decrypted = { ...cexAccount };
    if (cexAccount.apiSecret) {
        const decryptedSecret = decrypt(cexAccount.apiSecret, password);
        if (decryptedSecret) { decrypted.apiSecret = decryptedSecret; } }
    if (cexAccount.passphrase) {
        const decryptedPassphrase = decrypt(cexAccount.passphrase, password);
        if (decryptedPassphrase) { decrypted.passphrase = decryptedPassphrase; } }
    delete decrypted.isEncrypted;
    return decrypted; }\<close>
\<close>

definition decryptCexAccount :: "cryptojs \<Rightarrow> cex_account \<Rightarrow> string \<Rightarrow> cex_account" where
  "decryptCexAccount lib cexAccount password =
     (if password = [] \<or> \<not> flagged cexAccount then cexAccount
      else
        let decrypted = cexAccount;
            decrypted = (case truthy_str (apiSecret cexAccount) of
                           Some k \<Rightarrow> (case decrypt lib (Some k) password of
                                        Some decryptedSecret \<Rightarrow>
                                          if decryptedSecret = [] then decrypted
                                          else decrypted\<lparr>apiSecret := Some decryptedSecret\<rparr>
                                      | None \<Rightarrow> decrypted)
                         | None \<Rightarrow> decrypted);
            decrypted = (case truthy_str (passphrase cexAccount) of
                           Some k \<Rightarrow> (case decrypt lib (Some k) password of
                                        Some decryptedPassphrase \<Rightarrow>
                                          if decryptedPassphrase = [] then decrypted
                                          else decrypted\<lparr>passphrase := Some decryptedPassphrase\<rparr>
                                      | None \<Rightarrow> decrypted)
                         | None \<Rightarrow> decrypted)
        in decrypted\<lparr>isEncrypted := None\<rparr>)"

text \<open>
  \<^verbatim>\<open>export function encryptCexAccounts(cexAccounts, password) {
    if (!cexAccounts || !Array.isArray(cexAccounts) || !password) { return cexAccounts; }
    return cexAccounts.map(account => encryptCexAccount(account, password)); }\<close>
  \<open>salts i\<close> are the salts drawn for the account at index \<open>i\<close>.
\<close>

definition encryptCexAccounts ::
  "cryptojs \<Rightarrow> (nat \<Rightarrow> salt \<times> salt) \<Rightarrow> cex_account list \<Rightarrow> string \<Rightarrow> cex_account list" where
  "encryptCexAccounts lib salts cexAccounts password =
     (if password = [] then cexAccounts
      else map (\<lambda>(i, account). encryptCexAccount lib (salts i) account password)
             (enumerate 0 cexAccounts))"

text \<open>
  \<^verbatim>\<open>export function decryptCexAccounts(cexAccounts, password) {
    if (!cexAccounts || !Array.isArray(cexAccounts) || !password) { return cexAccounts; }
    return cexAccounts.map(account => decryptCexAccount(account, password)); }\<close>
\<close>

definition decryptCexAccounts :: "cryptojs \<Rightarrow> cex_account list \<Rightarrow> string \<Rightarrow> cex_account list" where
  "decryptCexAccounts lib cexAccounts password =
     (if password = [] then cexAccounts
      else map (\<lambda>account. decryptCexAccount lib account password) cexAccounts)"

section \<open>Browser storage\<close>

text \<open>
  \<open>chrome.storage.session\<close>: the extension stores these three keys in it and no other.
  \<open>None\<close> is a key that is not stored.
\<close>

record session_storage =
  sessionToken :: "string option"
  sessionExpiry :: "nat option"
  masterPassword :: "string option"

text \<open>
  A wallet of the wallet list (\<open>parseWalletInput\<close> builds them). \<open>wallet_type\<close> is absent
  on the entries that the update cycle adds for CEX accounts.
\<close>

record wallet =
  address :: string
  chain_type :: string
  remark :: string
  wallet_type :: "string option"
  balance :: real
  last_updated :: "nat option"
  status :: string

text \<open>
  \<open>chrome.storage.local\<close> and \<open>chrome.storage.sync\<close> hold the same keys; \<open>None\<close> is a key
  that is not stored.
\<close>

record storage_area =
  passwordHash :: "string option"
  stored_settings :: "settings option"
  stored_wallets :: "wallet list option"
  stored_cexAccounts :: "cex_account list option"

text \<open>
  The state of the browser that the modelled functions read and write. Reading
  \<open>chrome.storage.sync\<close> may throw (\<open>Inl\<close>).
\<close>

record browser =
  storage_local :: storage_area
  storage_sync :: "js_error + storage_area"
  storage_session :: session_storage

section \<open>Session manager (src/utils/password_manager.js)\<close>

text \<open>\<^verbatim>\<open>const SESSION_DURATION = 30 * 60 * 1000; // 30 minutes in milliseconds\<close>\<close>

definition SESSION_DURATION :: nat where
  "SESSION_DURATION = 30 * 60 * 1000"

text \<open>
  \<^verbatim>\<open>export async function clearSession() { await chrome.storage.session.clear(); }\<close>
\<close>

definition clearSession :: "session_storage \<Rightarrow> session_storage" where
  "clearSession ss = \<lparr> sessionToken = None, sessionExpiry = None, masterPassword = None \<rparr>"

text \<open>
  \<^verbatim>\<open>export async function validateSession() {
    try {
        const data = await chrome.storage.session.get(['sessionToken', 'sessionExpiry']);
        if (!data.sessionToken || !data.sessionExpiry) { return false; }
        if (Date.now() > data.sessionExpiry) { await clearSession(); return false; }
        return true;
    } catch (error) { return false; } }\<close>
  \<open>now\<close> is the value of \<open>Date.now()\<close>, in milliseconds. The result is the answer and
  the session storage after the call.
\<close>

definition validateSession :: "nat \<Rightarrow> session_storage \<Rightarrow> bool \<times> session_storage" where
  "validateSession now ss =
     (case (truthy_str (sessionToken ss), sessionExpiry ss) of
        (Some token, Some expiry) \<Rightarrow>
          if expiry = 0 then (False, ss)
          else if now > expiry then (False, clearSession ss)
          else (True, ss)
      | _ \<Rightarrow> (False, ss))"

text \<open>
  \<^verbatim>\<open>export async function getMasterPassword() {
    const isValid = await validateSession();
    if (!isValid) { return null; }
    const data = await chrome.storage.session.get(['masterPassword']);
    return data.masterPassword || null; }\<close>
\<close>

definition getMasterPassword :: "nat \<Rightarrow> session_storage \<Rightarrow> string option \<times> session_storage" where
  "getMasterPassword now ss =
     (let (isValid, ss') = validateSession now ss
      in if \<not> isValid then (None, ss') else (truthy_str (masterPassword ss'), ss'))"

text \<open>
  \<^verbatim>\<open>export async function createSession(password) {
    const hash = hashPassword(password);
    const data = await chrome.storage.local.get(['passwordHash']);
    if (!data.passwordHash) {
        throw new Error('Password not set. Please set up password first.'); }
    if (data.passwordHash !== hash) { throw new Error('Invalid password'); }
    const sessionToken = CryptoJS.lib.WordArray.random(32).toString();
    const expiresAt = Date.now() + SESSION_DURATION;
    await chrome.storage.session.set({
        sessionToken, sessionExpiry: expiresAt, masterPassword: password });
    return sessionToken; }\<close>
  \<open>token\<close> is the random token that the library draws, \<open>now\<close> the value of \<open>Date.now()\<close>.
\<close>

definition hashPassword :: "cryptojs \<Rightarrow> string \<Rightarrow> string" where
  "hashPassword lib password = SHA256 lib password"

definition createSession ::
  "cryptojs \<Rightarrow> string \<Rightarrow> nat \<Rightarrow> string \<Rightarrow> browser \<Rightarrow> js_error + string \<times> browser" where
  "createSession lib token now password b =
     (let hash = hashPassword lib password
      in case truthy_str (passwordHash (storage_local b)) of
           None \<Rightarrow> Inl (Error ''Password not set. Please set up password first.'')
         | Some stored \<Rightarrow>
             if stored \<noteq> hash then Inl (Error ''Invalid password'')
             else
               let expiresAt = now + SESSION_DURATION
               in Inr (token,
                       b\<lparr>storage_session :=
                            \<lparr> sessionToken = Some token, sessionExpiry = Some expiresAt,
                              masterPassword = Some password \<rparr>\<rparr>))"

section \<open>CEX account management (src/dashboard/utils/cex_manager.js)\<close>

text \<open>The stored array \<open>data.cexAccounts || []\<close>.\<close>

definition persisted_cexAccounts :: "browser \<Rightarrow> cex_account list" where
  "persisted_cexAccounts b =
     (case stored_cexAccounts (storage_local b) of None \<Rightarrow> [] | Some accounts \<Rightarrow> accounts)"

definition set_cexAccounts :: "cex_account list \<Rightarrow> browser \<Rightarrow> browser" where
  "set_cexAccounts accounts b =
     b\<lparr>storage_local := (storage_local b)\<lparr>stored_cexAccounts := Some accounts\<rparr>\<rparr>"

text \<open>
  \<^verbatim>\<open>export async function saveCexAccounts(accounts) {
    try {
        const password = await getMasterPassword();
        if (password && accounts.length > 0) {
            const encrypted = encryptCexAccounts(accounts, password);
            await chrome.storage.local.set({ cexAccounts: encrypted });
        } else {
            await chrome.storage.local.set({ cexAccounts: accounts }); }
    } catch (error) {
        await chrome.storage.local.set({ cexAccounts: accounts }); } }\<close>
  Writing to the storage does not fail in the model, so the \<open>catch\<close> branch, which stores
  the same array as the \<open>else\<close> branch, is not taken.
\<close>

definition saveCexAccounts ::
  "cryptojs \<Rightarrow> (nat \<Rightarrow> salt \<times> salt) \<Rightarrow> nat \<Rightarrow> cex_account list \<Rightarrow> browser \<Rightarrow> browser" where
  "saveCexAccounts lib salts now accounts b =
     (let (password, ss) = getMasterPassword now (storage_session b);
          b = b\<lparr>storage_session := ss\<rparr>
      in case password of
           Some pw \<Rightarrow>
             if accounts \<noteq> [] then set_cexAccounts (encryptCexAccounts lib salts accounts pw) b
             else set_cexAccounts accounts b
         | None \<Rightarrow> set_cexAccounts accounts b)"

text \<open>The values of the form that \<open>addCexAccount\<close> reads, named by their element ids.\<close>

record cex_form =
  cex_name :: string
  cex_api_key :: string
  cex_api_secret :: string
  cex_passphrase :: string
  cex_remark :: string

text \<open>
  \<^verbatim>\<open>export async function addCexAccount() {
    const cexName = document.getElementById('cex-name').value;
    const apiKey = document.getElementById('cex-api-key').value.trim();
    const apiSecret = document.getElementById('cex-api-secret').value.trim();
    const passphrase = document.getElementById('cex-passphrase').value.trim();
    const remark = document.getElementById('cex-remark').value.trim()
        || `${cexName.toUpperCase()} Wallet`;
    if (!apiKey || !apiSecret) { alert('API Key and API Secret are required!'); return; }
    if ((cexName === 'okx' || cexName === 'bitget') && !passphrase) {
        alert('Passphrase is required for OKX and Bitget!'); return; }
    const data = await chrome.storage.local.get(['cexAccounts']);
    let accounts = data.cexAccounts || [];
    if (accounts.length > 0 && accounts[0]?.isEncrypted) {
        const password = await getMasterPassword();
        if (password) { accounts = decryptCexAccounts(accounts, password); }
        else { alert('Please unlock your password first ...'); return; } }
    accounts.push({ id: Date.now().toString(), cexName: cexName, apiKey: apiKey,
        apiSecret: apiSecret, passphrase: passphrase, remark: remark });
    await saveCexAccounts(accounts);
    renderCexAccountsList(accounts); ... }\<close>
  The result is the text of the alert, if any, and the browser state after the call;
  rendering the list and clearing the form are left out. \<open>t1\<close>, \<open>t2\<close> and \<open>t3\<close> are the
  values of \<open>Date.now()\<close> at the first \<open>getMasterPassword\<close>, at the new \<open>id\<close> and in
  \<open>saveCexAccounts\<close>.
\<close>

definition addCexAccount ::
  "cryptojs \<Rightarrow> (nat \<Rightarrow> salt \<times> salt) \<Rightarrow> cex_form \<Rightarrow> nat \<Rightarrow> nat \<Rightarrow> nat \<Rightarrow> browser
     \<Rightarrow> string option \<times> browser" where
  "addCexAccount lib salts form t1 t2 t3 b =
     (let cexName = cex_name form;
          apiKey = trim (cex_api_key form);
          apiSecret = trim (cex_api_secret form);
          passphrase = trim (cex_passphrase form);
          remark = (if trim (cex_remark form) \<noteq> [] then trim (cex_remark form)
                    else toUpperCase cexName @ '' Wallet'');
          account = \<lparr> isEncrypted = None, cex_id = toString t2, cexName = cexName,
                      apiKey = apiKey, apiSecret = Some apiSecret,
                      passphrase = Some passphrase, cex_account.remark = remark \<rparr>
      in if apiKey = [] \<or> apiSecret = [] then
           (Some ''API Key and API Secret are required!'', b)
         else if (cexName = ''okx'' \<or> cexName = ''bitget'') \<and> passphrase = [] then
           (Some ''Passphrase is required for OKX and Bitget!'', b)
         else
           let accounts = persisted_cexAccounts b
           in if accounts \<noteq> [] \<and> flagged (hd accounts) then
                let (password, ss) = getMasterPassword t1 (storage_session b);
                    b = b\<lparr>storage_session := ss\<rparr>
                in case password of
                     Some pw \<Rightarrow>
                       (None, saveCexAccounts lib salts t3
                                (decryptCexAccounts lib accounts pw @ [account]) b)
                   | None \<Rightarrow>
                       (Some ''Please unlock your password first (Settings -> Enter Password)'', b)
              else (None, saveCexAccounts lib salts t3 (accounts @ [account]) b))"

text \<open>
  The batch invariant of a CEX account array: either every element carries
  \<open>isEncrypted === true\<close> or none does.
\<close>

definition batch_uniform :: "cex_account list \<Rightarrow> bool" where
  "batch_uniform accounts \<longleftrightarrow> list_all flagged accounts \<or> list_all (\<lambda>a. \<not> flagged a) accounts"

section \<open>Wallet list as text (settings_manager.js, src/unnamed/part_002)\<close>

text \<open>\<open>s.split(c)\<close> for a one-character separator; \<open>acc\<close> is the current piece, reversed.\<close>

fun split_char :: "char \<Rightarrow> string \<Rightarrow> string \<Rightarrow> string list" where
  "split_char c acc [] = [rev acc]"
| "split_char c acc (x # xs) =
     (if x = c then rev acc # split_char c [] xs else split_char c (x # acc) xs)"

text \<open>
  \<open>row.split(/[,\t]+|\s{2,}/)\<close>. At a comma or a tab the first alternative matches the
  longest run of commas and tabs; at another whitespace character the second one
  matches the longest run of whitespace, when it has at least two characters.
\<close>

definition comma_or_tab :: "char \<Rightarrow> bool" where
  "comma_or_tab c \<longleftrightarrow> c = CHR '','' \<or> c = CHR 0x09"

function split_cols :: "string \<Rightarrow> string \<Rightarrow> string list" where
  "split_cols acc [] = [rev acc]"
| "split_cols acc (x # xs) =
     (if comma_or_tab x then rev acc # split_cols [] (dropWhile comma_or_tab xs)
      else if whitespace x \<and> xs \<noteq> [] \<and> whitespace (hd xs)
        then rev acc # split_cols [] (dropWhile whitespace xs)
      else split_cols (x # acc) xs)"
  by pat_completeness auto
termination
  by (relation "measure (\<lambda>(acc, s). length s)")
     (auto simp: length_dropWhile_le less_Suc_eq_le)

text \<open>\<open>xs.join(sep)\<close>.\<close>

fun join :: "string \<Rightarrow> string list \<Rightarrow> string" where
  "join sep [] = []"
| "join sep [x] = x"
| "join sep (x # y # ys) = x @ sep @ join sep (y # ys)"

text \<open>The header name \<open>'\<dots>'\<close> of two CJK characters (U+5730 U+5740), in UTF-8.\<close>

definition header_cjk :: string where
  "header_cjk = [CHR 0xE5, CHR 0x9C, CHR 0xB0, CHR 0xE5, CHR 0x9D, CHR 0x80]"

text \<open>
  \<^verbatim>\<open>export function parseWalletInput(rawInput) {
    const rows = rawInput.trim().split('\n');
    const wallets = [];
    for (let i = 0; i < rows.length; i++) {
        const row = rows[i];
        if (!row.trim()) continue;
        const cols = row.split(/[,\t]+|\s{2,}/).map(s => s.trim()).filter(s => s.length > 0);
        if (i === 0 && cols.length >= 2) {
            const firstCol = cols[0].toLowerCase();
            if (firstCol === 'address' || firstCol === '..' || firstCol === 'wallet') {
                continue; } }
        if (cols.length >= 2) {
            wallets.push({ address: cols[0], chain_type: cols[1].toLowerCase(),
                remark: cols[2] || '', wallet_type: cols[3] ? cols[3].toLowerCase() : 'hot',
                balance: 0, last_updated: null, status: 'pending' }); } }
    return wallets; }\<close>
  \<open>parse_rows i rows\<close> is the loop from the index \<open>i\<close> on, over the rows that remain.
\<close>

definition parse_row :: "string list \<Rightarrow> wallet" where
  "parse_row cols =
     \<lparr> address = cols ! 0, chain_type = toLowerCase (cols ! 1),
       remark = (if 2 < length cols then cols ! 2 else []),
       wallet_type = Some (if 3 < length cols then toLowerCase (cols ! 3) else ''hot''),
       balance = 0, last_updated = None, status = ''pending'' \<rparr>"

fun parse_rows :: "nat \<Rightarrow> string list \<Rightarrow> wallet list" where
  "parse_rows i [] = []"
| "parse_rows i (row # rows) =
     (if trim row = [] then parse_rows (i + 1) rows
      else
        let cols = filter (\<lambda>s. s \<noteq> []) (map trim (split_cols [] row))
        in if i = 0 \<and> 2 \<le> length cols \<and>
              (let firstCol = toLowerCase (cols ! 0)
               in firstCol = ''address'' \<or> firstCol = header_cjk \<or> firstCol = ''wallet'')
           then parse_rows (i + 1) rows
           else if 2 \<le> length cols then parse_row cols # parse_rows (i + 1) rows
           else parse_rows (i + 1) rows)"

definition parseWalletInput :: "string \<Rightarrow> wallet list" where
  "parseWalletInput rawInput = parse_rows 0 (split_char CHR 0x0A [] (trim rawInput))"

text \<open>
  \<^verbatim>\<open>export function walletsToCSV(wallets) {
    return wallets.map(w =>
        `${w.address}, ${w.chain_type}, ${w.remark || ''}, ${w.wallet_type || 'hot'}`
    ).join('\n'); }\<close>
\<close>

definition walletsToCSV :: "wallet list \<Rightarrow> string" where
  "walletsToCSV wallets =
     join [CHR 0x0A]
       (map (\<lambda>w. address w @ '', '' @ chain_type w @ '', '' @ remark w @ '', '' @
                  (case truthy_str (wallet_type w) of Some t \<Rightarrow> t | None \<Rightarrow> ''hot''))
          wallets)"

section \<open>Loading the settings (settings_manager.js, src/unnamed/part_002)\<close>

text \<open>The empty object \<open>{}\<close>, and \<open>settings._timestamp || 0\<close>.\<close>

definition empty_settings :: settings where
  "empty_settings =
     \<lparr> isEncrypted = None, encryptionVersion = None, openRouterApiKey = None,
       siliconFlowApiKey = None, customSolanaRpc = None, timestamp = None, syncWallets = None,
       syncCexApi = None, other = Map.empty \<rparr>"

definition timestamp_of :: "settings \<Rightarrow> nat" where
  "timestamp_of st = (case timestamp st of None \<Rightarrow> 0 | Some n \<Rightarrow> n)"

text \<open>
  The object spread \<open>{ ...a, ...b }\<close>: a property that \<open>b\<close> carries has the value it has
  in \<open>b\<close>, and any other property the value it has in \<open>a\<close>.
\<close>

definition or_else :: "'a option \<Rightarrow> 'a option \<Rightarrow> 'a option" where
  "or_else x y = (case y of None \<Rightarrow> x | Some v \<Rightarrow> Some v)"

definition spread :: "settings \<Rightarrow> settings \<Rightarrow> settings" where
  "spread a b =
     \<lparr> isEncrypted = or_else (isEncrypted a) (isEncrypted b),
       encryptionVersion = or_else (encryptionVersion a) (encryptionVersion b),
       openRouterApiKey = or_else (openRouterApiKey a) (openRouterApiKey b),
       siliconFlowApiKey = or_else (siliconFlowApiKey a) (siliconFlowApiKey b),
       customSolanaRpc = or_else (customSolanaRpc a) (customSolanaRpc b),
       timestamp = or_else (timestamp a) (timestamp b),
       syncWallets = or_else (syncWallets a) (syncWallets b),
       syncCexApi = or_else (syncCexApi a) (syncCexApi b),
       other = other a ++ other b \<rparr>"

text \<open>\<open>data.settings || {}\<close>, \<open>data.wallets || []\<close> and \<open>data.cexAccounts || []\<close>.\<close>

definition settings_in :: "storage_area \<Rightarrow> settings" where
  "settings_in area = (case stored_settings area of None \<Rightarrow> empty_settings | Some st \<Rightarrow> st)"

definition wallets_in :: "storage_area \<Rightarrow> wallet list" where
  "wallets_in area = (case stored_wallets area of None \<Rightarrow> [] | Some ws \<Rightarrow> ws)"

definition cexAccounts_in :: "storage_area \<Rightarrow> cex_account list" where
  "cexAccounts_in area = (case stored_cexAccounts area of None \<Rightarrow> [] | Some accounts \<Rightarrow> accounts)"

text \<open>The value that \<open>loadSettingsFromStorage\<close> returns.\<close>

record loaded =
  loaded_settings :: settings
  loaded_wallets :: "wallet list"
  loaded_cexAccounts :: "cex_account list"

text \<open>
  The comparison with the sync storage, step 2 of \<open>loadSettingsFromStorage\<close>:
  \<^verbatim>\<open>try {
    const syncData = await chrome.storage.sync.get(['settings', 'wallets', 'cexAccounts']);
    const syncSettings = syncData.settings || {};
    const cloudTimestamp = syncSettings._timestamp || 0;
    if (cloudTimestamp > localTimestamp) {
        settings = { ...settings, ...syncSettings };
        if (syncSettings.syncWallets !== false && syncData.wallets
            && syncData.wallets.length > 0) { wallets = syncData.wallets; }
        if (syncSettings.syncCexApi === true && syncData.cexAccounts
            && syncData.cexAccounts.length > 0) { cexAccounts = syncData.cexAccounts; }
        await chrome.storage.local.set({ settings, wallets, cexAccounts });
    } else if (localTimestamp > 0) {
        // Local data is newer or equal, keeping local
    } else if (cloudTimestamp > 0) {
        settings = { ...settings, ...syncSettings };
        if (syncData.wallets && syncData.wallets.length > 0) { wallets = syncData.wallets; }
        await chrome.storage.local.set({ settings, wallets, cexAccounts });
    }
  } catch (e) { console.warn('Failed to check sync storage:', e); }\<close>
  The result is the three variables and the browser state.
\<close>

definition store_loaded :: "loaded \<Rightarrow> browser \<Rightarrow> browser" where
  "store_loaded l b =
     b\<lparr>storage_local := (storage_local b)
          \<lparr>stored_settings := Some (loaded_settings l), stored_wallets := Some (loaded_wallets l),
           stored_cexAccounts := Some (loaded_cexAccounts l)\<rparr>\<rparr>"

definition compare_sync :: "loaded \<Rightarrow> browser \<Rightarrow> loaded \<times> browser" where
  "compare_sync l b =
     (let localTimestamp = timestamp_of (loaded_settings l)
      in case storage_sync b of
           Inl e \<Rightarrow> (l, b)
         | Inr syncData \<Rightarrow>
             let syncSettings = settings_in syncData;
                 cloudTimestamp = timestamp_of syncSettings
             in if cloudTimestamp > localTimestamp then
                  let l = l\<lparr>loaded_settings := spread (loaded_settings l) syncSettings\<rparr>;
                      l = (if syncWallets syncSettings \<noteq> Some False \<and> wallets_in syncData \<noteq> []
                           then l\<lparr>loaded_wallets := wallets_in syncData\<rparr> else l);
                      l = (if syncCexApi syncSettings = Some True \<and> cexAccounts_in syncData \<noteq> []
                           then l\<lparr>loaded_cexAccounts := cexAccounts_in syncData\<rparr> else l)
                  in (l, store_loaded l b)
                else if localTimestamp > 0 then (l, b)
                else if cloudTimestamp > 0 then
                  let l = l\<lparr>loaded_settings := spread (loaded_settings l) syncSettings\<rparr>;
                      l = (if wallets_in syncData \<noteq> []
                           then l\<lparr>loaded_wallets := wallets_in syncData\<rparr> else l)
                  in (l, store_loaded l b)
                else (l, b))"

text \<open>
  The two decryption steps:
  \<^verbatim>\<open>if (settings.isEncrypted) {
    try {
        const password = await getMasterPassword();
        if (password) { settings = decryptSettings(settings, password); }
    } catch (error) { ... } }
  if (cexAccounts && cexAccounts.length > 0 && cexAccounts[0]?.isEncrypted) {
    try {
        const password = await getMasterPassword();
        if (password) { cexAccounts = decryptCexAccounts(cexAccounts, password); }
    } catch (error) { ... } }\<close>
  Each takes the value of \<open>Date.now()\<close> at its call of \<open>getMasterPassword\<close>.
\<close>

definition decrypt_loaded_settings ::
  "cryptojs \<Rightarrow> nat \<Rightarrow> settings \<Rightarrow> session_storage \<Rightarrow> settings \<times> session_storage" where
  "decrypt_loaded_settings lib now st ss =
     (if flagged st then
        let (password, ss) = getMasterPassword now ss
        in case password of
             Some pw \<Rightarrow> (decryptSettings lib st pw, ss)
           | None \<Rightarrow> (st, ss)
      else (st, ss))"

definition decrypt_loaded_cexAccounts ::
  "cryptojs \<Rightarrow> nat \<Rightarrow> cex_account list \<Rightarrow> session_storage \<Rightarrow> cex_account list \<times> session_storage" where
  "decrypt_loaded_cexAccounts lib now accounts ss =
     (if accounts \<noteq> [] \<and> flagged (hd accounts) then
        let (password, ss) = getMasterPassword now ss
        in case password of
             Some pw \<Rightarrow> (decryptCexAccounts lib accounts pw, ss)
           | None \<Rightarrow> (accounts, ss)
      else (accounts, ss))"

text \<open>
  \<^verbatim>\<open>export async function loadSettingsFromStorage() {
    const localData = await chrome.storage.local.get(['settings', 'wallets', 'cexAccounts']);
    let settings = localData.settings || {};
    let wallets = localData.wallets || [];
    let cexAccounts = localData.cexAccounts || [];
    const localTimestamp = settings._timestamp || 0;
    ... // the comparison with the sync storage, then the two decryption steps
    return { settings, wallets, cexAccounts }; }\<close>
\<close>

definition loadSettingsFromStorage :: "cryptojs \<Rightarrow> nat \<Rightarrow> nat \<Rightarrow> browser \<Rightarrow> loaded \<times> browser" where
  "loadSettingsFromStorage lib t1 t2 b =
     (let localData = storage_local b;
          l = \<lparr> loaded_settings = settings_in localData, loaded_wallets = wallets_in localData,
                loaded_cexAccounts = cexAccounts_in localData \<rparr>;
          (l, b) = compare_sync l b;
          (st, ss) = decrypt_loaded_settings lib t1 (loaded_settings l) (storage_session b);
          (accounts, ss) = decrypt_loaded_cexAccounts lib t2 (loaded_cexAccounts l) ss
      in (l\<lparr>loaded_settings := st, loaded_cexAccounts := accounts\<rparr>, b\<lparr>storage_session := ss\<rparr>))"

text \<open>
  \<open>adopts merged cloud\<close>: every property that the cloud settings carry has in \<open>merged\<close>
  the value it has in the cloud settings.
\<close>

definition adopts :: "settings \<Rightarrow> settings \<Rightarrow> bool" where
  "adopts merged cloud \<longleftrightarrow>
     (isEncrypted cloud \<noteq> None \<longrightarrow> isEncrypted merged = isEncrypted cloud) \<and>
     (encryptionVersion cloud \<noteq> None \<longrightarrow> encryptionVersion merged = encryptionVersion cloud) \<and>
     (openRouterApiKey cloud \<noteq> None \<longrightarrow> openRouterApiKey merged = openRouterApiKey cloud) \<and>
     (siliconFlowApiKey cloud \<noteq> None \<longrightarrow> siliconFlowApiKey merged = siliconFlowApiKey cloud) \<and>
     (customSolanaRpc cloud \<noteq> None \<longrightarrow> customSolanaRpc merged = customSolanaRpc cloud) \<and>
     (timestamp cloud \<noteq> None \<longrightarrow> timestamp merged = timestamp cloud) \<and>
     (syncWallets cloud \<noteq> None \<longrightarrow> syncWallets merged = syncWallets cloud) \<and>
     (syncCexApi cloud \<noteq> None \<longrightarrow> syncCexApi merged = syncCexApi cloud) \<and>
     (\<forall>k \<in> dom (other cloud). other merged k = other cloud k)"

section \<open>Solana balance (src/utils/chain_api.js)\<close>

text \<open>
  \<^verbatim>\<open>// Solana RPC (Configured by User)
  const SOLANA_RPCS = [];\<close>
\<close>

definition SOLANA_RPCS :: "string list" where
  "SOLANA_RPCS = []"

text \<open>
  The network, as \<open>getSolanaBalance\<close> sees it. \<open>axios_post url addr\<close> is the outcome
  of the \<open>getBalance\<close> request for the address \<open>addr\<close> posted to \<open>url\<close>: it throws (no connection,
  timeout, HTTP error) or gives a response, whose body carries an error message or the
  balance in lamports (\<open>response.data.result.value\<close>), or neither. \<open>getPrice id\<close> is the
  price lookup, which may throw. Amounts are real numbers.
\<close>

record rpc_response =
  rpc_error :: "string option"
  rpc_lamports :: "real option"

record solana_net =
  axios_post :: "string \<Rightarrow> string \<Rightarrow> js_error + rpc_response"
  getPrice :: "string \<Rightarrow> js_error + real"

text \<open>
  The list of endpoints:
  \<^verbatim>\<open>let rpcsToTry = [...SOLANA_RPCS];
  try {
      const data = await chrome.storage.local.get(['settings']);
      if (data.settings?.customSolanaRpc) {
          rpcsToTry.unshift(data.settings.customSolanaRpc); }
  } catch (e) { /* Can fail if used outside dashboard context */ }\<close>
  The argument is the outcome of reading the local storage.
\<close>

definition rpcsToTry :: "js_error + storage_area \<Rightarrow> string list" where
  "rpcsToTry stored =
     (case stored of
        Inl e \<Rightarrow> SOLANA_RPCS
      | Inr data \<Rightarrow>
          (case stored_settings data of
             None \<Rightarrow> SOLANA_RPCS
           | Some st \<Rightarrow>
               (case truthy_str (customSolanaRpc st) of
                  Some url \<Rightarrow> url # SOLANA_RPCS
                | None \<Rightarrow> SOLANA_RPCS)))"

text \<open>
  The body of the loop, one attempt:
  \<^verbatim>\<open>try {
      const response = await axios.post(rpcUrl, payload, { timeout: 5000, ... });
      if (response.data.error) {
          throw new Error("RPC Error: " + response.data.error.message); }
      const lamports = response.data.result.value;
      const solBalance = lamports / 1000000000; // 10^9
      let price = 0;
      try { price = await getPrice("solana"); } catch (e) { ... }
      return solBalance * price;
  } catch (error) { lastError = error; /* Continue to next RPC */ }\<close>
  \<open>Inl\<close> is the error caught, \<open>Inr\<close> the value returned. Reading \<open>result.value\<close> of a
  response without a result is a \<open>TypeError\<close>.
\<close>

definition attempt_rpc :: "solana_net \<Rightarrow> string \<Rightarrow> string \<Rightarrow> js_error + real" where
  "attempt_rpc net rpcUrl addr =
     (case axios_post net rpcUrl addr of
        Inl error \<Rightarrow> Inl error
      | Inr response \<Rightarrow>
          (case rpc_error response of
             Some message \<Rightarrow> Inl (Error (''RPC Error: '' @ message))
           | None \<Rightarrow>
               (case rpc_lamports response of
                  None \<Rightarrow> Inl (Error ''TypeError: Cannot read properties of undefined'')
                | Some lamports \<Rightarrow>
                    let solBalance = lamports / 1000000000;
                        price = (case getPrice net ''solana'' of Inl e \<Rightarrow> 0 | Inr p \<Rightarrow> p)
                    in Inr (solBalance * price))))"

text \<open>
  The loop and what follows it:
  \<^verbatim>\<open>for (const rpcUrl of rpcsToTry) { ... }
  throw lastError || new Error("All Solana RPCs failed");\<close>
\<close>

fun try_rpcs :: "solana_net \<Rightarrow> string \<Rightarrow> js_error option \<Rightarrow> string list \<Rightarrow> js_error + real" where
  "try_rpcs net addr lastError [] =
     Inl (case lastError of Some e \<Rightarrow> e | None \<Rightarrow> Error ''All Solana RPCs failed'')"
| "try_rpcs net addr lastError (rpcUrl # rest) =
     (case attempt_rpc net rpcUrl addr of
        Inr usd \<Rightarrow> Inr usd
      | Inl error \<Rightarrow> try_rpcs net addr (Some error) rest)"

definition getSolanaBalance :: "solana_net \<Rightarrow> js_error + storage_area \<Rightarrow> string \<Rightarrow> js_error + real" where
  "getSolanaBalance net stored addr = try_rpcs net addr None (rpcsToTry stored)"

section \<open>OKX balance (the CEX API module in src/utils/chain_api.js)\<close>
















subsection \<open>The USD value of a category, as the specification words it\<close>






section \<open>Update cycle guard (the service worker in src/dashboard/index.js)\<close>

text \<open>
  The state of the service worker that the guard is about: the module variable
  \<^verbatim>\<open>let isUpdating = false;\<close>
  and the number of calls of \<open>startUpdateLoop\<close> that have begun and not yet ended (the
  update cycles in progress). The worker runs one event at a time; an event is a
  message that arrives, or the end of a cycle in progress, when the body of its \<open>try\<close>
  block has run to completion or has thrown.
\<close>

record worker =
  isUpdating :: bool
  cycles :: nat

datatype outcome = Completed | Threw

datatype event = START_UPDATE | Other_message | Cycle_ends outcome

definition initial_worker :: worker where
  "initial_worker = \<lparr> isUpdating = False, cycles = 0 \<rparr>"

text \<open>
  \<^verbatim>\<open>async function startUpdateLoop() {
    isUpdating = true;
    let updateWindow = null;
    try {
        const data = await chrome.storage.local.get(['wallets', 'settings']);
        ... // the update cycle; it does not assign isUpdating
    } catch (e) {
        console.error("Update loop failed:", e);
    } finally {
        if (updateWindow && updateWindow.windowId) {
            chrome.windows.remove(updateWindow.windowId); }
        isUpdating = false;
    } }\<close>
  A call of an \<open>async\<close> function runs up to its first \<open>await\<close> before it returns to the
  caller: that part is \<open>startUpdateLoop_begin\<close>. The \<open>catch\<close> and \<open>finally\<close> blocks, which run
  when the body has completed or thrown, are \<open>startUpdateLoop_end\<close>.
\<close>

definition startUpdateLoop_begin :: "worker \<Rightarrow> worker" where
  "startUpdateLoop_begin w = w\<lparr>isUpdating := True, cycles := cycles w + 1\<rparr>"

definition startUpdateLoop_end :: "outcome \<Rightarrow> worker \<Rightarrow> worker" where
  "startUpdateLoop_end how w = w\<lparr>isUpdating := False, cycles := cycles w - 1\<rparr>"

text \<open>
  \<^verbatim>\<open>chrome.runtime.onMessage.addListener((message, sender, sendResponse) => {
    if (message.action === "START_UPDATE") {
        if (isUpdating) { sendResponse({ status: "busy" }); return; }
        startUpdateLoop();
        sendResponse({ status: "ok" });
    } });\<close>
  \<open>handle w e\<close> is the state after the event and the status sent in response, if any.
  A cycle can end only when one is in progress.
\<close>

fun handle :: "worker \<Rightarrow> event \<Rightarrow> worker \<times> string option" where
  "handle w START_UPDATE =
     (if isUpdating w then (w, Some ''busy'') else (startUpdateLoop_begin w, Some ''ok''))"
| "handle w Other_message = (w, None)"
| "handle w (Cycle_ends how) = (if cycles w = 0 then (w, None) else (startUpdateLoop_end how w, None))"

text \<open>The state after a sequence of events, from the initial state.\<close>

definition after :: "event list \<Rightarrow> worker" where
  "after events = foldl (\<lambda>w e. fst (handle w e)) initial_worker events"

section \<open>Sample values\<close>

text \<open>
  A small cipher that stands in for the library where a concrete one is needed: it
  rotates the text by the length of the password. It satisfies \<open>aes_roundtrip\<close>, and,
  like AES in CBC mode, it carries no integrity check: under another password it
  decodes to some other text.
\<close>

definition rot_encrypt :: "salt \<Rightarrow> string \<Rightarrow> string \<Rightarrow> js_error + string" where
  "rot_encrypt s d p = (let k = length p mod length d in Inr (drop k d @ take k d))"

definition rot_decrypt :: "string \<Rightarrow> string \<Rightarrow> js_error + string" where
  "rot_decrypt c p =
     (let k = length c - length p mod length c in Inr (drop k c @ take k c))"

definition rot_cipher :: cryptojs where
  "rot_cipher = \<lparr> AES_encrypt = rot_encrypt, AES_decrypt = rot_decrypt,
                    SHA256 = (\<lambda>s. ''sha256:'' @ s) \<rparr>"

text \<open>
  A library in which every call of AES throws, as \<open>crypto-js\<close> does when the bytes
  decoded under a wrong password are not UTF-8.
\<close>

definition throwing_cipher :: cryptojs where
  "throwing_cipher = \<lparr> AES_encrypt = (\<lambda>s d p. Inl (Error ''Malformed UTF-8 data'')),
                         AES_decrypt = (\<lambda>c p. Inl (Error ''Malformed UTF-8 data'')),
                         SHA256 = (\<lambda>s. ''sha256:'' @ s) \<rparr>"

text \<open>
  The values of \<open>crypto-js\<close> (AES-256 in CBC mode with PKCS7 padding, the key and the
  initialisation vector derived from the password and the salt as OpenSSL does with
  MD5) at one ciphertext. With the salt of the bytes 01 to 08, \<open>AES.encrypt\<close> of
  \<open>secret\<close> under \<open>Passw0rd!\<close> is the string \<open>recorded_ciphertext\<close>. Decrypted and
  decoded as UTF-8, that string is \<open>secret\<close> under \<open>Passw0rd!\<close>, the empty string under
  \<open>wrong-pw\<close> (the last byte of the decrypted block is larger than the block), and the
  string \<open>N+R\<close> under \<open>wrong-1823\<close> (the decrypted block is 4e 2b 52 ... 0d: its last
  byte is taken for a padding of 13 bytes, and the three bytes that remain are ASCII).
  \<open>recorded_cryptojs\<close> has these values and throws at every other input.
\<close>

definition recorded_salt :: salt where
  "recorded_salt = [CHR 0x01, CHR 0x02, CHR 0x03, CHR 0x04, CHR 0x05, CHR 0x06, CHR 0x07, CHR 0x08]"

definition recorded_ciphertext :: string where
  "recorded_ciphertext = ''U2FsdGVkX18BAgMEBQYHCBXzP3uG2GGMSGaClyQMMDc=''"

definition recorded_cryptojs :: cryptojs where
  "recorded_cryptojs =
     \<lparr> AES_encrypt = (\<lambda>s d p.
         if s = recorded_salt \<and> d = ''secret'' \<and> p = ''Passw0rd!'' then Inr recorded_ciphertext
         else Inl (Error ''not recorded'')),
       AES_decrypt = (\<lambda>c p.
         if c = recorded_ciphertext \<and> p = ''Passw0rd!'' then Inr ''secret''
         else if c = recorded_ciphertext \<and> p = ''wrong-pw'' then Inr []
         else if c = recorded_ciphertext \<and> p = ''wrong-1823'' then Inr ''N+R''
         else Inl (Error ''not recorded'')),
       SHA256 = (\<lambda>s. ''sha256:'' @ s) \<rparr>"

text \<open>
  An unlocked browser that stores one encrypted OKX account (under \<open>rot_cipher\<close> and the
  password \<open>Passw0rd!\<close>), and a form that adds a Binance account.
\<close>

definition sample_account :: cex_account where
  "sample_account =
     \<lparr> isEncrypted = Some True, cex_id = ''5'', cexName = ''okx'', apiKey = ''key-1'',
       apiSecret = Some ''retsec'', passphrase = Some ''rasephph'',
       cex_account.remark = ''OKX Wallet'' \<rparr>"

definition sample_form :: cex_form where
  "sample_form =
     \<lparr> cex_name = ''binance'', cex_api_key = '' key-2 '', cex_api_secret = ''topsecret!'',
       cex_passphrase = [], cex_remark = [] \<rparr>"

definition sample_browser :: browser where
  "sample_browser =
     \<lparr> storage_local = \<lparr> passwordHash = Some ''sha256:Passw0rd!'', stored_settings = None,
                         stored_wallets = None, stored_cexAccounts = Some [sample_account] \<rparr>,
       storage_sync = Inl (Error ''sync is not available''),
       storage_session = \<lparr> sessionToken = Some ''a1b2'', sessionExpiry = Some 1800000,
                           masterPassword = Some ''Passw0rd!'' \<rparr> \<rparr>"

text \<open>Encrypted settings (the key is an opaque ciphertext) with one more property.\<close>

definition sample_settings :: settings where
  "sample_settings =
     \<lparr> isEncrypted = Some True, encryptionVersion = Some ''1.0'',
       openRouterApiKey = Some (Some ''U2FsdGVkX1-ciphertext''), siliconFlowApiKey = Some (Some []),
       customSolanaRpc = None, timestamp = Some 100, syncWallets = None, syncCexApi = None,
       other = [''evmSource'' \<mapsto> JStr ''etherscan''] \<rparr>"

text \<open>
  A browser whose local settings carry the timestamp \<open>n\<close> and whose sync storage holds
  settings with the timestamp 200, each with one wallet.
\<close>

definition btc_wallet :: "string \<Rightarrow> wallet" where
  "btc_wallet a =
     \<lparr> address = a, chain_type = ''btc'', remark = [], wallet_type = Some ''hot'', balance = 0,
       last_updated = None, status = ''pending'' \<rparr>"

definition settings_at :: "nat \<Rightarrow> string \<Rightarrow> settings" where
  "settings_at n source =
     empty_settings\<lparr>timestamp := Some n, other := [''evmSource'' \<mapsto> JStr source]\<rparr>"

definition cloud_area :: storage_area where
  "cloud_area =
     \<lparr> passwordHash = None, stored_settings = Some (settings_at 200 ''debank''),
       stored_wallets = Some [btc_wallet ''bc1-cloud''], stored_cexAccounts = None \<rparr>"

definition sync_browser :: "nat \<Rightarrow> browser" where
  "sync_browser n =
     \<lparr> storage_local =
         \<lparr> passwordHash = None, stored_settings = Some (settings_at n ''etherscan''),
           stored_wallets = Some [btc_wallet ''bc1-local''], stored_cexAccounts = None \<rparr>,
       storage_sync = Inr cloud_area,
       storage_session = \<lparr> sessionToken = None, sessionExpiry = None, masterPassword = None \<rparr> \<rparr>"

text \<open>
  A network in which every endpoint answers with a balance of two SOL and the price of
  SOL is 150, and a local storage with and without a custom endpoint.
\<close>

definition healthy_net :: solana_net where
  "healthy_net =
     \<lparr> axios_post = (\<lambda>url addr. Inr \<lparr> rpc_error = None, rpc_lamports = Some 2000000000 \<rparr>),
       getPrice = (\<lambda>coin. Inr 150) \<rparr>"

definition area_with_rpc :: "string option \<Rightarrow> storage_area" where
  "area_with_rpc url =
     \<lparr> passwordHash = None,
       stored_settings = Some ((settings_at 100 ''etherscan'')\<lparr>customSolanaRpc := url\<rparr>),
       stored_wallets = None, stored_cexAccounts = None \<rparr>"





section \<open>Properties of the crypto primitive layer\<close>

lemma rot_decrypt_rot_encrypt:
  assumes "d \<noteq> []"
  shows "\<exists>c. rot_encrypt s d p = Inr c \<and> c \<noteq> [] \<and> rot_decrypt c p = Inr d"
proof -
  define k where "k = length p mod length d"
  define c where "c = drop k d @ take k d"
  have k: "k < length d" using assms by (simp add: k_def)
  have len: "length c = length d" using k by (simp add: c_def)
  have "rot_encrypt s d p = Inr c" by (simp add: rot_encrypt_def k_def c_def Let_def)
  moreover have "c \<noteq> []" using assms len by auto
  moreover have "drop (length d - k) c @ take (length d - k) c = d"
    using k by (simp add: c_def)
  then have "rot_decrypt c p = Inr d" by (simp add: rot_decrypt_def len k_def Let_def)
  ultimately show ?thesis by blast
qed

lemma rot_cipher_roundtrip: "aes_roundtrip rot_cipher"
  by (simp add: aes_roundtrip_def rot_cipher_def rot_decrypt_rot_encrypt)

text \<open>
  C2, as amended. \<open>encrypt\<close> returns \<open>null\<close> for an empty text or an empty password, so
  the round trip holds for the non-empty ones only: given a library whose AES round
  trips, \<open>decrypt (encrypt plaintext password) password\<close> is the plaintext when the
  plaintext and the password are non-empty strings, and \<open>null\<close> otherwise.
\<close>

theorem decrypt_encrypt_roundtrip:
  assumes "aes_roundtrip lib"
  shows "decrypt lib (encrypt lib s plaintext password) password =
           (if plaintext = [] \<or> password = [] then None else Some plaintext)"
proof (cases "plaintext = [] \<or> password = []")
  case True
  then show ?thesis by (auto simp: encrypt_def decrypt_def)
next
  case False
  with assms obtain c where "AES_encrypt lib s plaintext password = Inr c" "c \<noteq> []"
    "AES_decrypt lib c password = Inr plaintext"
    unfolding aes_roundtrip_def by blast
  with False show ?thesis by (simp add: encrypt_def decrypt_def)
qed

theorem decrypt_encrypt_roundtrip_witness:
  "aes_roundtrip rot_cipher \<and>
   decrypt rot_cipher (encrypt rot_cipher ''8bytes..'' ''sk-or-v1-abc'' ''Passw0rd!'') ''Passw0rd!'' =
     Some ''sk-or-v1-abc''"
  using decrypt_encrypt_roundtrip [OF rot_cipher_roundtrip, of "''8bytes..''" "''sk-or-v1-abc''" "''Passw0rd!''"]
    rot_cipher_roundtrip
  by simp

text \<open>
  The claim as stated fails at the empty plaintext: \<open>encrypt\<close> gives \<open>null\<close>, and so does
  \<open>decrypt\<close>, which is not the plaintext \<open>""\<close>.
\<close>

theorem decrypt_encrypt_empty_counterexample:
  "encrypt rot_cipher ''8bytes..'' [] ''Passw0rd!'' = None \<and>
   decrypt rot_cipher (encrypt rot_cipher ''8bytes..'' [] ''Passw0rd!'') ''Passw0rd!'' = None \<and>
   decrypt rot_cipher (encrypt rot_cipher ''8bytes..'' [] ''Passw0rd!'') ''Passw0rd!'' \<noteq> Some []"
  by (simp add: encrypt_def decrypt_def)

text \<open>
  C3, as amended. \<open>decrypt\<close> never throws: it is a total function whose results are
  \<open>null\<close> and strings. It returns \<open>null\<close> exactly when the input or the password is
  empty, when the library throws (as it does on bytes that are not UTF-8, the usual
  outcome of a wrong password or of corrupt data), or when the decoded text is empty.
  In every other case it returns the text that the library decoded: it returns a string
  exactly when the input and the password are non-empty and the library decodes the
  input under the password to that string, which is not empty. It has no check of its
  own that the password is the right one.
\<close>

theorem decrypt_result:
  "(decrypt lib encryptedData password = None \<longleftrightarrow>
      (case encryptedData of
         None \<Rightarrow> True
       | Some c \<Rightarrow> c = [] \<or> password = [] \<or>
           (case AES_decrypt lib c password of Inl error \<Rightarrow> True | Inr decrypted \<Rightarrow> decrypted = []))) \<and>
   (decrypt lib encryptedData password = Some decoded \<longleftrightarrow>
      (\<exists>c. encryptedData = Some c \<and> c \<noteq> [] \<and> password \<noteq> [] \<and>
           AES_decrypt lib c password = Inr decoded \<and> decoded \<noteq> []))"
  by (auto simp: decrypt_def split: option.splits sum.splits if_splits)

theorem decrypt_result_witness:
  "AES_decrypt recorded_cryptojs recorded_ciphertext ''Passw0rd!'' = Inr ''secret'' \<and>
   decrypt recorded_cryptojs (Some recorded_ciphertext) ''Passw0rd!'' = Some ''secret'' \<and>
   AES_decrypt recorded_cryptojs recorded_ciphertext ''wrong-pw'' = Inr [] \<and>
   decrypt recorded_cryptojs (Some recorded_ciphertext) ''wrong-pw'' = None"
proof -
  have a: "AES_decrypt recorded_cryptojs recorded_ciphertext ''Passw0rd!'' = Inr ''secret''"
    "AES_decrypt recorded_cryptojs recorded_ciphertext ''wrong-pw'' = Inr []"
    "recorded_ciphertext \<noteq> []"
    by (simp_all add: recorded_cryptojs_def recorded_ciphertext_def)
  show ?thesis
    using a decrypt_result [of recorded_cryptojs "Some recorded_ciphertext" "''Passw0rd!''" "''secret''"]
      decrypt_result [of recorded_cryptojs "Some recorded_ciphertext" "''wrong-pw''"]
    by simp
qed

text \<open>
  The claim as stated fails at the recorded values of the library: the ciphertext of
  \<open>secret\<close> under \<open>Passw0rd!\<close> decrypts to \<open>null\<close> under the wrong password \<open>wrong-pw\<close>,
  but under the wrong password \<open>wrong-1823\<close> the library decodes three bytes of text,
  and \<open>decrypt\<close> returns them.
\<close>

theorem decrypt_wrong_password_counterexample:
  "encrypt recorded_cryptojs recorded_salt ''secret'' ''Passw0rd!'' = Some recorded_ciphertext \<and>
   decrypt recorded_cryptojs (Some recorded_ciphertext) ''Passw0rd!'' = Some ''secret'' \<and>
   decrypt recorded_cryptojs (Some recorded_ciphertext) ''wrong-pw'' = None \<and>
   decrypt recorded_cryptojs (Some recorded_ciphertext) ''wrong-1823'' = Some ''N+R''"
  by (simp add: encrypt_def decrypt_def recorded_cryptojs_def recorded_ciphertext_def)

section \<open>Properties of the credential store\<close>

lemma flagged_decryptCexAccount:
  "password \<noteq> [] \<Longrightarrow> \<not> flagged (decryptCexAccount lib a password)"
  by (simp add: decryptCexAccount_def flagged_def Let_def split: option.splits)

lemma flagged_encryptCexAccount:
  "password \<noteq> [] \<Longrightarrow> flagged (encryptCexAccount lib ss a password)"
  by (simp add: encryptCexAccount_def flagged_def Let_def split: option.splits)

lemma list_all_flagged_encryptCexAccounts:
  "password \<noteq> [] \<Longrightarrow> list_all flagged (encryptCexAccounts lib salts accounts password)"
  by (auto simp: encryptCexAccounts_def list_all_iff flagged_encryptCexAccount)

lemma list_all_unflagged_decryptCexAccounts:
  "password \<noteq> [] \<Longrightarrow> list_all (\<lambda>a. \<not> flagged a) (decryptCexAccounts lib accounts password)"
  by (auto simp: decryptCexAccounts_def list_all_iff flagged_decryptCexAccount)

lemma batch_uniform_Nil [simp]: "batch_uniform []"
  by (simp add: batch_uniform_def)

lemma batch_uniform_encryptCexAccounts:
  "batch_uniform accounts \<Longrightarrow> batch_uniform (encryptCexAccounts lib salts accounts password)"
  using list_all_flagged_encryptCexAccounts [of password lib salts accounts]
  by (cases "password = []") (simp_all add: batch_uniform_def encryptCexAccounts_def)

lemma batch_uniform_decryptCexAccounts:
  "batch_uniform accounts \<Longrightarrow> batch_uniform (decryptCexAccounts lib accounts password)"
  using list_all_unflagged_decryptCexAccounts [of password lib accounts]
  by (cases "password = []") (simp_all add: batch_uniform_def decryptCexAccounts_def)

lemma batch_uniform_snoc_unflagged:
  "list_all (\<lambda>a. \<not> flagged a) accounts \<Longrightarrow> \<not> flagged a \<Longrightarrow> batch_uniform (accounts @ [a])"
  by (simp add: batch_uniform_def)

lemma batch_uniform_hd:
  "batch_uniform accounts \<Longrightarrow> accounts \<noteq> [] \<Longrightarrow> flagged (hd accounts) \<longleftrightarrow> list_all flagged accounts"
  by (cases accounts) (auto simp: batch_uniform_def)

text \<open>
  C10. For a non-empty password, right or wrong, \<open>decryptSettings\<close> on settings flagged
  as encrypted returns an object without \<open>isEncrypted\<close> and \<open>encryptionVersion\<close>, and
  \<open>decryptCexAccount\<close> on a flagged account returns one without \<open>isEncrypted\<close>. When
  \<open>decrypt\<close> fails on every secret field, the result is the input with only the markers
  removed: the fields still hold the ciphertext.
\<close>

theorem decrypt_removes_markers:
  assumes "password \<noteq> []"
  shows "(flagged st \<longrightarrow>
            isEncrypted (decryptSettings lib st password) = None \<and>
            encryptionVersion (decryptSettings lib st password) = None \<and>
            (decrypt lib (truthy_key (openRouterApiKey st)) password = None \<and>
             decrypt lib (truthy_key (siliconFlowApiKey st)) password = None \<longrightarrow>
               decryptSettings lib st password = st\<lparr>isEncrypted := None, encryptionVersion := None\<rparr>)) \<and>
         (flagged a \<longrightarrow>
            isEncrypted (decryptCexAccount lib a password) = None \<and>
            (decrypt lib (truthy_str (apiSecret a)) password = None \<and>
             decrypt lib (truthy_str (passphrase a)) password = None \<longrightarrow>
               decryptCexAccount lib a password = a\<lparr>isEncrypted := None\<rparr>))"
  using assms
  by (auto simp: decryptSettings_def decryptCexAccount_def Let_def split: option.splits)

theorem decrypt_removes_markers_witness:
  "''wrong-pw'' \<noteq> [] \<and> flagged sample_settings \<and> flagged sample_account \<and>
   decrypt throwing_cipher (truthy_key (openRouterApiKey sample_settings)) ''wrong-pw'' = None \<and>
   decrypt throwing_cipher (truthy_key (siliconFlowApiKey sample_settings)) ''wrong-pw'' = None \<and>
   decrypt throwing_cipher (truthy_str (apiSecret sample_account)) ''wrong-pw'' = None \<and>
   decrypt throwing_cipher (truthy_str (passphrase sample_account)) ''wrong-pw'' = None \<and>
   decryptSettings throwing_cipher sample_settings ''wrong-pw'' =
     sample_settings\<lparr>isEncrypted := None, encryptionVersion := None\<rparr> \<and>
   openRouterApiKey (decryptSettings throwing_cipher sample_settings ''wrong-pw'') =
     Some (Some ''U2FsdGVkX1-ciphertext'') \<and>
   decryptCexAccount throwing_cipher sample_account ''wrong-pw'' =
     sample_account\<lparr>isEncrypted := None\<rparr> \<and>
   apiSecret (decryptCexAccount throwing_cipher sample_account ''wrong-pw'') = Some ''retsec''"
proof -
  have f: "flagged sample_settings" "flagged sample_account"
    by (simp_all add: flagged_def sample_settings_def sample_account_def)
  have d: "decrypt throwing_cipher x ''wrong-pw'' = None" for x
    by (simp add: decrypt_def throwing_cipher_def split: option.splits)
  have k: "openRouterApiKey sample_settings = Some (Some ''U2FsdGVkX1-ciphertext'')"
    "apiSecret sample_account = Some ''retsec''"
    by (simp_all add: sample_settings_def sample_account_def)
  show ?thesis
    using decrypt_removes_markers [of "''wrong-pw''" sample_settings throwing_cipher sample_account] f d k
    by simp
qed

section \<open>Properties of the session manager\<close>

lemma getMasterPassword_nonempty:
  "getMasterPassword now ss = (Some pw, ss') \<Longrightarrow> pw \<noteq> []"
  by (auto simp: getMasterPassword_def Let_def split: prod.splits if_splits option.splits
      elim!: truthy_str.elims)

text \<open>
  C4. When the stored hash is the hash of the password, \<open>createSession\<close> succeeds, and
  in the state it leaves: \<open>validateSession\<close> returns true at every time up to the expiry
  (30 minutes after the creation), in particular immediately after the creation, and
  changes nothing; at every time strictly after the expiry it returns false and leaves
  the session storage empty; and after \<open>clearSession\<close> it returns false. The token that
  the library draws is a non-empty string, and so is a hash.
\<close>

theorem session_lifecycle:
  assumes "passwordHash (storage_local b) = Some (hashPassword lib password)"
    and "hashPassword lib password \<noteq> []" and "token \<noteq> []"
  shows "\<exists>b'. createSession lib token now password b = Inr (token, b') \<and>
           sessionExpiry (storage_session b') = Some (now + SESSION_DURATION) \<and>
           (\<forall>t. t \<le> now + SESSION_DURATION \<longrightarrow>
                validateSession t (storage_session b') = (True, storage_session b')) \<and>
           (\<forall>t. now + SESSION_DURATION < t \<longrightarrow>
                validateSession t (storage_session b') =
                  (False, \<lparr> sessionToken = None, sessionExpiry = None, masterPassword = None \<rparr>)) \<and>
           (\<forall>t. fst (validateSession t (clearSession (storage_session b'))) = False)"
  using assms
  by (simp add: createSession_def validateSession_def clearSession_def Let_def SESSION_DURATION_def)

theorem session_lifecycle_witness:
  "passwordHash (storage_local sample_browser) = Some (hashPassword rot_cipher ''Passw0rd!'') \<and>
   hashPassword rot_cipher ''Passw0rd!'' \<noteq> [] \<and> ''c3d4'' \<noteq> [] \<and>
   (\<exists>b'. createSession rot_cipher ''c3d4'' 5000 ''Passw0rd!'' sample_browser = Inr (''c3d4'', b') \<and>
         sessionExpiry (storage_session b') = Some 1805000 \<and>
         validateSession 5000 (storage_session b') = (True, storage_session b') \<and>
         validateSession 1805000 (storage_session b') = (True, storage_session b') \<and>
         validateSession 1805001 (storage_session b') =
           (False, \<lparr> sessionToken = None, sessionExpiry = None, masterPassword = None \<rparr>) \<and>
         fst (validateSession 5000 (clearSession (storage_session b'))) = False)"
proof -
  have h: "passwordHash (storage_local sample_browser) = Some (hashPassword rot_cipher ''Passw0rd!'')"
    "hashPassword rot_cipher ''Passw0rd!'' \<noteq> []" "''c3d4'' \<noteq> []"
    by (simp_all add: sample_browser_def hashPassword_def rot_cipher_def)
  from session_lifecycle [OF h, of 5000] obtain b' where
    c: "createSession rot_cipher ''c3d4'' 5000 ''Passw0rd!'' sample_browser = Inr (''c3d4'', b')"
    and x: "sessionExpiry (storage_session b') = Some (5000 + SESSION_DURATION)"
    and v: "\<forall>t. t \<le> 5000 + SESSION_DURATION \<longrightarrow>
                validateSession t (storage_session b') = (True, storage_session b')"
    and e: "\<forall>t. 5000 + SESSION_DURATION < t \<longrightarrow>
                validateSession t (storage_session b') =
                  (False, \<lparr> sessionToken = None, sessionExpiry = None, masterPassword = None \<rparr>)"
    and l: "\<forall>t. fst (validateSession t (clearSession (storage_session b'))) = False"
    by blast
  have "validateSession 5000 (storage_session b') = (True, storage_session b')"
    "validateSession 1805000 (storage_session b') = (True, storage_session b')"
    using v by (simp_all add: SESSION_DURATION_def)
  moreover have "sessionExpiry (storage_session b') = Some 1805000"
    using x by (simp add: SESSION_DURATION_def)
  moreover have "validateSession 1805001 (storage_session b') =
      (False, \<lparr> sessionToken = None, sessionExpiry = None, masterPassword = None \<rparr>)"
    using e by (simp add: SESSION_DURATION_def)
  ultimately show ?thesis using h c l by blast
qed

section \<open>Properties of the CEX account management\<close>

lemma persisted_set_cexAccounts [simp]:
  "persisted_cexAccounts (set_cexAccounts accounts b) = accounts"
  by (simp add: persisted_cexAccounts_def set_cexAccounts_def)

lemma persisted_storage_session [simp]:
  "persisted_cexAccounts (b\<lparr>storage_session := ss\<rparr>) = persisted_cexAccounts b"
  by (simp add: persisted_cexAccounts_def)

lemma batch_uniform_saveCexAccounts:
  assumes "batch_uniform accounts"
  shows "batch_uniform (persisted_cexAccounts (saveCexAccounts lib salts now accounts b))"
proof (cases "getMasterPassword now (storage_session b)")
  case (Pair password ss)
  show ?thesis
  proof (cases password)
    case None
    with Pair assms show ?thesis by (simp add: saveCexAccounts_def)
  next
    case (Some pw)
    with Pair have "pw \<noteq> []" by (auto dest: getMasterPassword_nonempty)
    then have "batch_uniform (encryptCexAccounts lib salts accounts pw)"
      by (simp add: batch_uniform_def list_all_flagged_encryptCexAccounts)
    with Pair Some assms show ?thesis by (simp add: saveCexAccounts_def Let_def)
  qed
qed

lemma batch_uniform_addCexAccount:
  assumes "batch_uniform (persisted_cexAccounts b)"
  shows "batch_uniform (persisted_cexAccounts (snd (addCexAccount lib salts form t1 t2 t3 b)))"
proof -
  define account where "account =
    \<lparr> isEncrypted = None, cex_id = toString t2, cexName = cex_name form,
      apiKey = trim (cex_api_key form), apiSecret = Some (trim (cex_api_secret form)),
      passphrase = Some (trim (cex_passphrase form)),
      cex_account.remark = (if trim (cex_remark form) \<noteq> [] then trim (cex_remark form)
                    else toUpperCase (cex_name form) @ '' Wallet'') \<rparr>"
  have unflagged: "\<not> flagged account" by (simp add: account_def flagged_def)
  let ?accounts = "persisted_cexAccounts b"
  have decrypted: "batch_uniform (decryptCexAccounts lib ?accounts pw @ [account])" if "pw \<noteq> []" for pw
    using that unflagged by (simp add: batch_uniform_snoc_unflagged list_all_unflagged_decryptCexAccounts)
  have plain: "batch_uniform (?accounts @ [account])" if "\<not> (?accounts \<noteq> [] \<and> flagged (hd ?accounts))"
  proof (cases "?accounts = []")
    case True
    then show ?thesis using unflagged by (simp add: batch_uniform_def)
  next
    case False
    with that assms have "list_all (\<lambda>a. \<not> flagged a) ?accounts"
      using batch_uniform_hd [of ?accounts] by (auto simp: batch_uniform_def)
    then show ?thesis using unflagged by (rule batch_uniform_snoc_unflagged)
  qed
  show ?thesis
    unfolding addCexAccount_def Let_def account_def [symmetric]
    using assms decrypted plain
    by (auto simp: batch_uniform_saveCexAccounts
        split: prod.splits option.splits dest: getMasterPassword_nonempty)
qed

text \<open>
  C1. The batch invariant: either every account of an array carries
  \<open>isEncrypted === true\<close> or none does; in such an array, if the first element carries
  the flag then every element does. The empty array has the invariant, and each of
  \<open>encryptCexAccounts\<close>, \<open>decryptCexAccounts\<close>, \<open>saveCexAccounts\<close> (on the array it
  persists) and \<open>addCexAccount\<close> (on the persisted array) keeps it, for every password,
  session state and time. With a non-empty password \<open>encryptCexAccounts\<close> flags every
  element and \<open>decryptCexAccounts\<close> leaves none flagged, whatever the input.
\<close>

theorem batch_invariant:
  "(batch_uniform accounts \<longrightarrow>
      (accounts \<noteq> [] \<and> flagged (hd accounts) \<longrightarrow> list_all flagged accounts) \<and>
      batch_uniform (encryptCexAccounts lib salts accounts password) \<and>
      batch_uniform (decryptCexAccounts lib accounts password) \<and>
      batch_uniform (persisted_cexAccounts (saveCexAccounts lib salts now accounts b))) \<and>
   (batch_uniform (persisted_cexAccounts b) \<longrightarrow>
      batch_uniform (persisted_cexAccounts (snd (addCexAccount lib salts form t1 t2 t3 b)))) \<and>
   (password \<noteq> [] \<longrightarrow>
      list_all flagged (encryptCexAccounts lib salts accounts password) \<and>
      list_all (\<lambda>a. \<not> flagged a) (decryptCexAccounts lib accounts password))"
  using batch_uniform_hd [of accounts]
  by (auto simp: batch_uniform_encryptCexAccounts batch_uniform_decryptCexAccounts
      batch_uniform_saveCexAccounts batch_uniform_addCexAccount
      list_all_flagged_encryptCexAccounts list_all_unflagged_decryptCexAccounts)


lemma sample_addCexAccount:
  "addCexAccount rot_cipher (\<lambda>i. (''salt-a'', ''salt-b'')) sample_form 1000 7 2000 sample_browser =
     (None, set_cexAccounts
              [sample_account,
               \<lparr> isEncrypted = Some True, cex_id = ''7'', cexName = ''binance'', apiKey = ''key-2'',
                 apiSecret = Some ''!topsecret'', passphrase = Some [],
                 cex_account.remark = ''BINANCE Wallet'' \<rparr>] sample_browser)"
  by (simp add: addCexAccount_def sample_form_def sample_browser_def sample_account_def
      persisted_cexAccounts_def flagged_def getMasterPassword_def validateSession_def Let_def
      trim_def whitespace_def toUpperCase_def toString.simps [of 7] digit_char_def
      saveCexAccounts_def set_cexAccounts_def encryptCexAccounts_def decryptCexAccounts_def
      encryptCexAccount_def decryptCexAccount_def encrypt_def decrypt_def rot_cipher_def
      rot_encrypt_def rot_decrypt_def enumerate_eq_zip)

theorem batch_invariant_witness:
  "batch_uniform [sample_account] \<and> batch_uniform (persisted_cexAccounts sample_browser) \<and>
   flagged (hd [sample_account]) \<and> ''Passw0rd!'' \<noteq> [] \<and>
   list_all flagged [sample_account] \<and>
   batch_uniform (encryptCexAccounts rot_cipher (\<lambda>i. (''salt-a'', ''salt-b'')) [sample_account] ''Passw0rd!'') \<and>
   batch_uniform (decryptCexAccounts rot_cipher [sample_account] ''Passw0rd!'') \<and>
   batch_uniform (persisted_cexAccounts
     (saveCexAccounts rot_cipher (\<lambda>i. (''salt-a'', ''salt-b'')) 2000 [sample_account] sample_browser)) \<and>
   batch_uniform (persisted_cexAccounts
     (snd (addCexAccount rot_cipher (\<lambda>i. (''salt-a'', ''salt-b'')) sample_form 1000 7 2000 sample_browser))) \<and>
   list_all flagged (encryptCexAccounts rot_cipher (\<lambda>i. (''salt-a'', ''salt-b'')) [sample_account] ''Passw0rd!'') \<and>
   list_all (\<lambda>a. \<not> flagged a) (decryptCexAccounts rot_cipher [sample_account] ''Passw0rd!'') \<and>
   persisted_cexAccounts
     (snd (addCexAccount rot_cipher (\<lambda>i. (''salt-a'', ''salt-b'')) sample_form 1000 7 2000 sample_browser)) =
     [sample_account,
      \<lparr> isEncrypted = Some True, cex_id = ''7'', cexName = ''binance'', apiKey = ''key-2'',
        apiSecret = Some ''!topsecret'', passphrase = Some [],
        cex_account.remark = ''BINANCE Wallet'' \<rparr>]"
proof -
  have u: "batch_uniform [sample_account]" "batch_uniform (persisted_cexAccounts sample_browser)"
    "flagged (hd [sample_account])"
    by (simp_all add: batch_uniform_def flagged_def sample_account_def sample_browser_def
        persisted_cexAccounts_def)
  show ?thesis
    using u sample_addCexAccount
      batch_invariant [of "[sample_account]" rot_cipher "\<lambda>i. (''salt-a'', ''salt-b'')" "''Passw0rd!''"
        2000 sample_browser sample_form 1000 7 2000]
    by simp
qed

section \<open>Properties of the wallet list as text\<close>

lemma cols_example:
  "filter (\<lambda>s. s \<noteq> []) (map trim (split_cols [] ''0xabc, evm, MyWallet, cold'')) =
     [''0xabc'', ''evm'', ''MyWallet'', ''cold'']"
  by (simp add: comma_or_tab_def whitespace_def trim_def)

lemma trim_example: "trim ''0xabc, evm, MyWallet, cold'' = ''0xabc, evm, MyWallet, cold''"
  by (simp add: trim_def whitespace_def)

lemma parse_rows_example:
  "parse_rows 0 [''0xabc, evm, MyWallet, cold''] =
     [\<lparr> address = ''0xabc'', chain_type = ''evm'', remark = ''MyWallet'',
        wallet_type = Some ''cold'', balance = 0, last_updated = None, status = ''pending'' \<rparr>]"
  apply (simp only: parse_rows.simps trim_example cols_example Let_def)
  apply (simp add: parse_row_def toLowerCase_def header_cjk_def)
  done

lemma parseWalletInput_example:
  "parseWalletInput ''0xabc, evm, MyWallet, cold'' =
     [\<lparr> address = ''0xabc'', chain_type = ''evm'', remark = ''MyWallet'',
        wallet_type = Some ''cold'', balance = 0, last_updated = None, status = ''pending'' \<rparr>]"
proof -
  have "split_char CHR 0x0A [] ''0xabc, evm, MyWallet, cold'' = [''0xabc, evm, MyWallet, cold'']"
    by simp
  then show ?thesis
    by (simp only: parseWalletInput_def trim_example parse_rows_example)
qed

lemma walletsToCSV_example:
  "walletsToCSV
     [\<lparr> address = ''0xabc'', chain_type = ''evm'', remark = ''MyWallet'',
        wallet_type = Some ''cold'', balance = 0, last_updated = None, status = ''pending'' \<rparr>] =
   ''0xabc, evm, MyWallet, cold''"
  by (simp add: walletsToCSV_def)

text \<open>
  C9. \<open>parseWalletInput\<close> on the line \<open>0xabc, evm, MyWallet, cold\<close> yields one record,
  with address \<open>0xabc\<close>, chain type \<open>evm\<close>, remark \<open>MyWallet\<close>, wallet type \<open>cold\<close>,
  balance 0, no update time and status \<open>pending\<close>; \<open>walletsToCSV\<close> turns that record
  into the same line, which parses back to the same record.
\<close>

theorem wallet_csv_roundtrip:
  "parseWalletInput ''0xabc, evm, MyWallet, cold'' =
     [\<lparr> address = ''0xabc'', chain_type = ''evm'', remark = ''MyWallet'',
        wallet_type = Some ''cold'', balance = 0, last_updated = None, status = ''pending'' \<rparr>] \<and>
   walletsToCSV (parseWalletInput ''0xabc, evm, MyWallet, cold'') = ''0xabc, evm, MyWallet, cold'' \<and>
   parseWalletInput (walletsToCSV (parseWalletInput ''0xabc, evm, MyWallet, cold'')) =
     parseWalletInput ''0xabc, evm, MyWallet, cold''"
  by (simp only: parseWalletInput_example walletsToCSV_example simp_thms)

section \<open>Properties of loading the settings\<close>

lemma adopts_spread: "adopts (spread a b) b"
  by (auto simp: adopts_def spread_def or_else_def map_add_dom_app_simps)

text \<open>
  C8. When the sync storage can be read: if the cloud settings carry a strictly greater
  \<open>_timestamp\<close> than the local ones, the load merges the cloud settings over the local
  ones, so that every property the cloud settings carry has the cloud's value (the
  timestamp among them), stores the result locally, and takes the cloud wallets when
  \<open>syncWallets !== false\<close> and the cloud wallet list is not empty; if the local
  timestamp is non-zero and not smaller than the cloud's, the local storage is left as
  it is and the local settings and wallets are the ones loaded. In both cases the
  settings returned have gone through the decryption step of the load.
\<close>

theorem last_write_wins:
  assumes "storage_sync b = Inr syncData"
  shows "(timestamp_of (settings_in (storage_local b)) < timestamp_of (settings_in syncData) \<longrightarrow>
            (let merged = spread (settings_in (storage_local b)) (settings_in syncData);
                 (l, b') = loadSettingsFromStorage lib t1 t2 b
             in adopts merged (settings_in syncData) \<and>
                timestamp merged = timestamp (settings_in syncData) \<and>
                stored_settings (storage_local b') = Some merged \<and>
                loaded_settings l = fst (decrypt_loaded_settings lib t1 merged (storage_session b)) \<and>
                loaded_wallets l =
                  (if syncWallets (settings_in syncData) \<noteq> Some False \<and> wallets_in syncData \<noteq> []
                   then wallets_in syncData else wallets_in (storage_local b)) \<and>
                stored_wallets (storage_local b') = Some (loaded_wallets l))) \<and>
         (timestamp_of (settings_in syncData) \<le> timestamp_of (settings_in (storage_local b)) \<and>
          0 < timestamp_of (settings_in (storage_local b)) \<longrightarrow>
            (let (l, b') = loadSettingsFromStorage lib t1 t2 b
             in storage_local b' = storage_local b \<and>
                loaded_settings l =
                  fst (decrypt_loaded_settings lib t1 (settings_in (storage_local b)) (storage_session b)) \<and>
                loaded_wallets l = wallets_in (storage_local b)))"
proof -
  have ts: "timestamp (spread a c) = timestamp c" if "timestamp_of a < timestamp_of c" for a c
    using that by (auto simp: spread_def or_else_def timestamp_of_def split: option.splits)
  show ?thesis
    using assms
    by (auto simp: loadSettingsFromStorage_def compare_sync_def store_loaded_def Let_def
        adopts_spread ts split: prod.splits)
qed

lemma sample_timestamps:
  "timestamp_of (settings_at n source) = n"
  "storage_sync (sync_browser n) = Inr cloud_area"
  by (simp_all add: sync_browser_def cloud_area_def settings_in_def settings_at_def
      timestamp_of_def empty_settings_def)

theorem last_write_wins_witness:
  "storage_sync (sync_browser 100) = Inr cloud_area \<and>
   timestamp_of (settings_in (storage_local (sync_browser 100))) < timestamp_of (settings_in cloud_area) \<and>
   loaded_settings (fst (loadSettingsFromStorage rot_cipher 1000 1001 (sync_browser 100))) =
     settings_at 200 ''debank'' \<and>
   loaded_wallets (fst (loadSettingsFromStorage rot_cipher 1000 1001 (sync_browser 100))) =
     [btc_wallet ''bc1-cloud''] \<and>
   storage_sync (sync_browser 300) = Inr cloud_area \<and>
   timestamp_of (settings_in cloud_area) \<le> timestamp_of (settings_in (storage_local (sync_browser 300))) \<and>
   0 < timestamp_of (settings_in (storage_local (sync_browser 300))) \<and>
   storage_local (snd (loadSettingsFromStorage rot_cipher 1000 1001 (sync_browser 300))) =
     storage_local (sync_browser 300) \<and>
   loaded_settings (fst (loadSettingsFromStorage rot_cipher 1000 1001 (sync_browser 300))) =
     settings_at 300 ''etherscan'' \<and>
   loaded_wallets (fst (loadSettingsFromStorage rot_cipher 1000 1001 (sync_browser 300))) =
     [btc_wallet ''bc1-local'']"
proof -
  have merged: "spread (settings_at 100 ''etherscan'') (settings_at 200 ''debank'') = settings_at 200 ''debank''"
    by (simp add: spread_def settings_at_def empty_settings_def or_else_def)
  have plain: "decrypt_loaded_settings lib t (settings_at n s) ss = (settings_at n s, ss)" for lib t n s ss
    by (simp add: decrypt_loaded_settings_def flagged_def settings_at_def empty_settings_def)
  have areas: "settings_in (storage_local (sync_browser n)) = settings_at n ''etherscan''"
    "wallets_in (storage_local (sync_browser n)) = [btc_wallet ''bc1-local'']"
    "settings_in cloud_area = settings_at 200 ''debank''"
    "wallets_in cloud_area = [btc_wallet ''bc1-cloud'']"
    "syncWallets (settings_at 200 ''debank'') = None" for n
    by (simp_all add: sync_browser_def cloud_area_def settings_in_def wallets_in_def
        settings_at_def empty_settings_def)
  show ?thesis
    using last_write_wins [OF sample_timestamps(2), of 100 rot_cipher 1000 1001]
      last_write_wins [OF sample_timestamps(2), of 300 rot_cipher 1000 1001]
    by (simp add: sample_timestamps areas merged plain split_beta Let_def)
qed

section \<open>Properties of the Solana balance\<close>

lemma try_rpcs_throws_iff:
  "isl (try_rpcs net addr lastError urls) \<longleftrightarrow> list_all (\<lambda>u. isl (attempt_rpc net u addr)) urls"
  by (induction urls arbitrary: lastError) (auto split: sum.splits)

lemma try_rpcs_first_success:
  "try_rpcs net addr lastError urls = Inr usd \<longleftrightarrow>
     (\<exists>failed u rest. urls = failed @ u # rest \<and>
        list_all (\<lambda>u. isl (attempt_rpc net u addr)) failed \<and> attempt_rpc net u addr = Inr usd)"
proof (induction urls arbitrary: lastError)
  case Nil
  then show ?case by simp
next
  case (Cons url urls)
  show ?case
  proof (cases "attempt_rpc net url addr")
    case (Inl e)
    have "(\<exists>failed u rest. url # urls = failed @ u # rest \<and>
        list_all (\<lambda>u. isl (attempt_rpc net u addr)) failed \<and> attempt_rpc net u addr = Inr usd)
      \<longleftrightarrow> (\<exists>failed u rest. urls = failed @ u # rest \<and>
        list_all (\<lambda>u. isl (attempt_rpc net u addr)) failed \<and> attempt_rpc net u addr = Inr usd)"
      (is "?L \<longleftrightarrow> ?R")
    proof
      assume ?L
      then obtain failed u rest where *: "url # urls = failed @ u # rest"
        "list_all (\<lambda>u. isl (attempt_rpc net u addr)) failed" "attempt_rpc net u addr = Inr usd"
        by blast
      with Inl have "failed \<noteq> []" by (cases failed) auto
      then obtain failed' where "failed = url # failed'" using *(1) by (cases failed) auto
      with * show ?R by auto
    next
      assume ?R
      then obtain failed u rest where "urls = failed @ u # rest"
        "list_all (\<lambda>u. isl (attempt_rpc net u addr)) failed" "attempt_rpc net u addr = Inr usd"
        by blast
      with Inl have "url # urls = (url # failed) @ u # rest \<and>
        list_all (\<lambda>u. isl (attempt_rpc net u addr)) (url # failed) \<and> attempt_rpc net u addr = Inr usd"
        by simp
      then show ?L by blast
    qed
    with Inl Cons.IH [of "Some e"] show ?thesis by simp
  next
    case (Inr v)
    have "(\<exists>failed u rest. url # urls = failed @ u # rest \<and>
        list_all (\<lambda>u. isl (attempt_rpc net u addr)) failed \<and> attempt_rpc net u addr = Inr usd)
      \<longleftrightarrow> v = usd" (is "?L \<longleftrightarrow> _")
    proof
      assume ?L
      then obtain failed u rest where *: "url # urls = failed @ u # rest"
        "list_all (\<lambda>u. isl (attempt_rpc net u addr)) failed" "attempt_rpc net u addr = Inr usd"
        by blast
      show "v = usd"
      proof (cases failed)
        case Nil
        with * Inr show ?thesis by simp
      next
        case (Cons f fs)
        with * Inr show ?thesis by simp
      qed
    next
      assume "v = usd"
      with Inr have "url # urls = [] @ url # urls \<and>
        list_all (\<lambda>u. isl (attempt_rpc net u addr)) [] \<and> attempt_rpc net url addr = Inr usd"
        by simp
      then show ?L by blast
    qed
    with Inr show ?thesis by simp
  qed
qed


text \<open>
  C6, as amended. The list of endpoints is the custom endpoint of the settings, when it
  is set, followed by the default list, which is empty: so it is that one endpoint or
  no endpoint at all. The endpoints of a list are tried in order: the call returns the
  value of the first attempt that succeeds, after attempts that all failed, and it
  throws exactly when every endpoint of the list fails, which is at once when the list
  is empty. With a custom endpoint the call is that one attempt; without one it throws
  \<open>All Solana RPCs failed\<close> and posts no request.
\<close>

theorem solana_fallback:
  "rpcsToTry stored =
     (case stored of
        Inl e \<Rightarrow> []
      | Inr data \<Rightarrow>
          (case stored_settings data of
             None \<Rightarrow> []
           | Some st \<Rightarrow> (case truthy_str (customSolanaRpc st) of Some url \<Rightarrow> [url] | None \<Rightarrow> []))) \<and>
   getSolanaBalance net stored addr =
     (case rpcsToTry stored of
        [] \<Rightarrow> Inl (Error ''All Solana RPCs failed'')
      | url # rest \<Rightarrow> attempt_rpc net url addr) \<and>
   (isl (try_rpcs net addr None urls) \<longleftrightarrow> list_all (\<lambda>u. isl (attempt_rpc net u addr)) urls) \<and>
   (\<forall>usd. try_rpcs net addr None urls = Inr usd \<longleftrightarrow>
      (\<exists>failed u rest. urls = failed @ u # rest \<and>
         list_all (\<lambda>u. isl (attempt_rpc net u addr)) failed \<and> attempt_rpc net u addr = Inr usd))"
proof -
  have list: "rpcsToTry stored =
     (case stored of
        Inl e \<Rightarrow> []
      | Inr data \<Rightarrow>
          (case stored_settings data of
             None \<Rightarrow> []
           | Some st \<Rightarrow> (case truthy_str (customSolanaRpc st) of Some url \<Rightarrow> [url] | None \<Rightarrow> [])))"
    by (simp add: rpcsToTry_def SOLANA_RPCS_def split: sum.splits option.splits)
  have "rpcsToTry stored = [] \<or> (\<exists>url. rpcsToTry stored = [url])"
    unfolding list by (simp split: sum.splits option.splits)
  then have call: "getSolanaBalance net stored addr =
     (case rpcsToTry stored of
        [] \<Rightarrow> Inl (Error ''All Solana RPCs failed'')
      | url # rest \<Rightarrow> attempt_rpc net url addr)"
    by (auto simp: getSolanaBalance_def split: sum.splits)
  show ?thesis
    using list call try_rpcs_throws_iff [of net addr None urls]
      try_rpcs_first_success [of net addr None urls]
    by blast
qed

text \<open>
  The claim as stated fails when no custom endpoint is configured: the list is empty,
  there is no default endpoint, and the call throws although every endpoint of the
  network would have answered.
\<close>

theorem solana_no_default_counterexample:
  "rpcsToTry (Inr (area_with_rpc None)) = [] \<and>
   getSolanaBalance healthy_net (Inr (area_with_rpc None)) ''So1anaWa11et'' =
     Inl (Error ''All Solana RPCs failed'')"
  by (simp add: getSolanaBalance_def rpcsToTry_def SOLANA_RPCS_def area_with_rpc_def)

lemma solana_custom_example:
  "getSolanaBalance healthy_net (Inr (area_with_rpc (Some ''https://rpc.example''))) ''So1anaWa11et'' =
     Inr 300"
  by (simp add: getSolanaBalance_def rpcsToTry_def SOLANA_RPCS_def area_with_rpc_def
      attempt_rpc_def healthy_net_def)

section \<open>Properties of the OKX balance\<close>










section \<open>Properties of the update cycle guard\<close>

lemma after_snoc: "after (events @ [e]) = fst (handle (after events) e)"
  by (simp add: after_def)

lemma guard_invariant:
  "cycles (after events) \<le> 1 \<and> (isUpdating (after events) \<longleftrightarrow> cycles (after events) = 1)"
proof (induction events rule: rev_induct)
  case Nil
  show ?case by (simp add: after_def initial_worker_def)
next
  case (snoc e events)
  then show ?case
    by (cases e)
       (auto simp: after_snoc startUpdateLoop_begin_def startUpdateLoop_end_def)
qed

text \<open>
  C7. After every sequence of events at most one update cycle is in progress, and
  \<open>isUpdating\<close> is set exactly when one is. A \<open>START_UPDATE\<close> that arrives while a cycle
  is in progress is answered \<open>busy\<close> and changes nothing; one that arrives while none is
  in progress is answered \<open>ok\<close> and starts a cycle. When the cycle in progress ends,
  whether its body completed or threw, \<open>isUpdating\<close> is reset and no cycle is in
  progress.
\<close>

theorem single_update_cycle:
  "cycles (after events) \<le> 1 \<and>
   (isUpdating (after events) \<longleftrightarrow> cycles (after events) = 1) \<and>
   (cycles (after events) = 1 \<longrightarrow>
      handle (after events) START_UPDATE = (after events, Some ''busy'') \<and>
      \<not> isUpdating (fst (handle (after events) (Cycle_ends how))) \<and>
      cycles (fst (handle (after events) (Cycle_ends how))) = 0) \<and>
   (cycles (after events) = 0 \<longrightarrow>
      snd (handle (after events) START_UPDATE) = Some ''ok'' \<and>
      isUpdating (fst (handle (after events) START_UPDATE)) \<and>
      cycles (fst (handle (after events) START_UPDATE)) = 1)"
  using guard_invariant [of events]
  by (auto simp: startUpdateLoop_begin_def startUpdateLoop_end_def)

lemma after_examples:
  "after [START_UPDATE, START_UPDATE] = \<lparr> isUpdating = True, cycles = 1 \<rparr>"
  "after [START_UPDATE, START_UPDATE, Cycle_ends Threw] = \<lparr> isUpdating = False, cycles = 0 \<rparr>"
  by (simp_all add: after_def initial_worker_def startUpdateLoop_begin_def startUpdateLoop_end_def)

theorem single_update_cycle_witness:
  "cycles (after [START_UPDATE, START_UPDATE]) = 1 \<and>
   handle (after [START_UPDATE, START_UPDATE]) START_UPDATE =
     (\<lparr> isUpdating = True, cycles = 1 \<rparr>, Some ''busy'') \<and>
   \<not> isUpdating (fst (handle (after [START_UPDATE, START_UPDATE]) (Cycle_ends Threw))) \<and>
   cycles (fst (handle (after [START_UPDATE, START_UPDATE]) (Cycle_ends Threw))) = 0 \<and>
   cycles (after [START_UPDATE, START_UPDATE, Cycle_ends Threw]) = 0 \<and>
   snd (handle (after [START_UPDATE, START_UPDATE, Cycle_ends Threw]) START_UPDATE) = Some ''ok'' \<and>
   isUpdating (fst (handle (after [START_UPDATE, START_UPDATE, Cycle_ends Threw]) START_UPDATE)) \<and>
   cycles (fst (handle (after [START_UPDATE, START_UPDATE, Cycle_ends Threw]) START_UPDATE)) = 1"
  using single_update_cycle [of "[START_UPDATE, START_UPDATE]" Threw]
    single_update_cycle [of "[START_UPDATE, START_UPDATE, Cycle_ends Threw]" Threw]
  by (simp add: after_examples startUpdateLoop_begin_def startUpdateLoop_end_def)


end
